theory Spec2Isabelle
  imports Main
begin

section \<open>Python values used by StateModel.py\<close>

text \<open>
  The exceptions the engine can raise: \<open>ValueError\<close> with its message (raised by the
  engine itself), \<open>IndexError\<close> (a list subscript out of range) and \<open>TypeError\<close>
  (iterating over \<open>None\<close>).
\<close>

datatype py_error = ValueError string | IndexError | TypeError

text \<open>
  Python list subscripts: an index \<open>i\<close> with \<open>-len \<le> i < len\<close> is accepted, a negative
  one counts from the end; any other index raises \<open>IndexError\<close>.
\<close>

definition valid_index :: "'a list \<Rightarrow> int \<Rightarrow> bool" where
  "valid_index xs i \<longleftrightarrow> - int (length xs) \<le> i \<and> i < int (length xs)"

definition norm_index :: "'a list \<Rightarrow> int \<Rightarrow> nat" where
  "norm_index xs i = nat (if i < 0 then int (length xs) + i else i)"

definition getitem :: "'a list \<Rightarrow> int \<Rightarrow> py_error + 'a" where
  "getitem xs i = (if valid_index xs i then Inr (xs ! norm_index xs i) else Inl IndexError)"

section \<open>The engine state\<close>

text \<open>
  A row of \<open>_transitions\<close> is \<open>None\<close> (as the constructor leaves it) or a Python list
  of \<open>(event, destination)\<close> pairs. Such a list is a mutable object: \<open>addTransition\<close>
  appends to it in place, and \<open>setTransitionTable\<close> stores the caller's rows without
  copying them, so two rows of the table can be one and the same list. A row is
  therefore a reference, the address of a list object in the heap; the heap is a list
  of objects and the address of an object is its position.
\<close>

type_synonym entries = "(string \<times> int) list"

type_synonym row = "nat option"

text \<open>
  The handler and the button and timer adapters are objects outside the engine. The engine
  only calls them, so they are modelled by the calls they receive: each call is recorded
  with its arguments, together with the value \<open>_curState\<close> has at the moment of the call.
  A button or timer is identified by its \<open>_name\<close>; the flag of \<open>setHandler\<close> tells whether
  the engine (True) or \<open>None\<close> (False) is passed. Callbacks are taken to return normally
  and not to call back into the engine; the diagnostic \<open>Log\<close> calls are not modelled.
\<close>

datatype call =
    StateEntered int string
  | StateLeft int string
  | StateEvent int string
  | ButtonSetHandler string bool
  | TimerSetHandler string bool
  | TimerCancel string

record engine =
  numstates :: int
  running :: bool
  transitions :: "row list"
  curState :: int
  debug :: bool
  events :: "string list"
  buttons :: "string list"
  timers :: "string list"
  trace :: "(call \<times> int) list"
  heap :: "entries list"

definition call_out :: "call \<Rightarrow> engine \<Rightarrow> engine" where
  "call_out c m = m\<lparr>trace := trace m @ [(c, curState m)]\<rparr>"

text \<open>
  \<open>StateModel.__init__(numstates, handler, debug)\<close>. The engine is built in a heap that
  holds no row object yet.
\<close>

definition StateModel :: "int \<Rightarrow> bool \<Rightarrow> engine" where
  "StateModel n dbg =
     \<lparr>numstates = n, running = False, transitions = replicate (nat n) None,
      curState = - 1, debug = dbg, events = [''no_event''], buttons = [], timers = [],
      trace = [], heap = []\<rparr>"

text \<open>
  The client's \<open>row = [...]\<close>: a new list object. Its address is the length the heap
  had before.
\<close>

definition newList :: "entries \<Rightarrow> engine \<Rightarrow> py_error option \<times> engine" where
  "newList l m = (None, m\<lparr>heap := heap m @ [l]\<rparr>)"

section \<open>Transition table\<close>

text \<open>
  \<open>if not self._transitions[fromState]: self._transitions[fromState] = []\<close>. The
  subscript can raise \<open>IndexError\<close>. A row that is \<open>None\<close> or an empty list is
  replaced by a new empty list object, whatever other rows refer to the old one; a
  non-empty row keeps its object. The result is the address of the row's object.
\<close>

definition new_row :: "int \<Rightarrow> engine \<Rightarrow> nat \<times> engine" where
  "new_row fromState m =
     (length (heap m),
      m\<lparr>transitions := (transitions m)[norm_index (transitions m) fromState :=
                          Some (length (heap m))],
        heap := heap m @ [[]]\<rparr>)"

definition row_object :: "int \<Rightarrow> engine \<Rightarrow> py_error + (nat \<times> engine)" where
  "row_object fromState m =
     (case getitem (transitions m) fromState of
        Inl err \<Rightarrow> Inl err
      | Inr None \<Rightarrow> Inr (new_row fromState m)
      | Inr (Some a) \<Rightarrow>
          if heap m ! a = [] then Inr (new_row fromState m) else Inr (a, m))"

text \<open>
  \<open>self._transitions[fromState].append((event, toState))\<close>: the append changes the
  list object itself, for every row that refers to it.
\<close>

definition append_entry :: "int \<Rightarrow> string \<times> int \<Rightarrow> engine \<Rightarrow> py_error + engine" where
  "append_entry fromState p m =
     (case row_object fromState m of
        Inl err \<Rightarrow> Inl err
      | Inr (a, m1) \<Rightarrow> Inr (m1\<lparr>heap := (heap m1)[a := heap m1 ! a @ [p]]\<rparr>))"

text \<open>
  \<open>addTransition\<close>: the loop over \<open>events\<close>. An exception leaves the loop with the
  state as the earlier iterations made it.
\<close>

fun addTransition :: "int \<Rightarrow> string list \<Rightarrow> int \<Rightarrow> engine \<Rightarrow> py_error option \<times> engine" where
  "addTransition fromState [] toState m = (None, m)"
| "addTransition fromState (event # rest) toState m =
     (if event \<in> set (events m) then
        (case append_entry fromState (event, toState) m of
           Inl err \<Rightarrow> (Some err, m)
         | Inr m1 \<Rightarrow> addTransition fromState rest toState m1)
      else (Some (ValueError (''Invalid event '' @ event)), m))"

text \<open>The two nested validation loops of \<open>setTransitionTable\<close>.\<close>

fun check_row :: "string list \<Rightarrow> entries \<Rightarrow> py_error option" where
  "check_row evs [] = None"
| "check_row evs ((e, s) # r) =
     (if e \<notin> set evs then Some (ValueError (''Invalid event '' @ e)) else check_row evs r)"

fun check_rows :: "string list \<Rightarrow> entries list \<Rightarrow> py_error option" where
  "check_rows evs [] = None"
| "check_rows evs (r # rs) =
     (case check_row evs r of Some err \<Rightarrow> Some err | None \<Rightarrow> check_rows evs rs)"

text \<open>
  \<open>setTransitionTable\<close> takes a matrix of tuples (its docstring): a list of rows, each
  a list object of the heap, given by its address. The validation reads the rows as they
  are in the heap; \<open>self._transitions = transitions\<close> then makes the table refer to the
  caller's row objects themselves. The outer list is taken by value.
\<close>

definition setTransitionTable :: "nat list \<Rightarrow> engine \<Rightarrow> py_error option \<times> engine" where
  "setTransitionTable rows m =
     (let m1 = (if int (length rows) \<noteq> numstates m
                then m\<lparr>numstates := int (length rows)\<rparr> else m)
      in case check_rows (events m1) (map (\<lambda>a. heap m1 ! a) rows) of
           Some err \<Rightarrow> (Some err, m1)
         | None \<Rightarrow> (None, m1\<lparr>transitions := map Some rows\<rparr>))"

fun first_match :: "entries \<Rightarrow> string \<Rightarrow> int" where
  "first_match [] event = - 1"
| "first_match ((e, s) # r) event = (if e = event then s else first_match r event)"

text \<open>\<open>getTransition\<close>: iterating over a row that is \<open>None\<close> raises \<open>TypeError\<close>.\<close>

definition getTransition :: "engine \<Rightarrow> int \<Rightarrow> string \<Rightarrow> py_error + int" where
  "getTransition m fromState event =
     (case getitem (transitions m) fromState of
        Inl err \<Rightarrow> Inl err
      | Inr None \<Rightarrow> Inl TypeError
      | Inr (Some a) \<Rightarrow> Inr (first_match (heap m ! a) event))"

section \<open>Engine operations\<close>

definition start :: "engine \<Rightarrow> py_error option \<times> engine" where
  "start m =
     (let m1 = m\<lparr>curState := 0\<rparr>;
          m2 = m1\<lparr>running := True\<rparr>
      in (None, call_out (StateEntered (curState m2) ''no_event'') m2))"

definition stop :: "engine \<Rightarrow> py_error option \<times> engine" where
  "stop m =
     (let m1 = (if running m then call_out (StateLeft (curState m) ''no_event'') m else m);
          m2 = m1\<lparr>running := False\<rparr>;
          m3 = fold (\<lambda>b. call_out (ButtonSetHandler b False)) (buttons m2) m2;
          m4 = fold (\<lambda>t mm. call_out (TimerCancel t) (call_out (TimerSetHandler t False) mm))
                 (timers m3) m3
      in (None, m4\<lparr>curState := - 1\<rparr>))"

definition gotoState :: "int \<Rightarrow> string \<Rightarrow> engine \<Rightarrow> py_error option \<times> engine" where
  "gotoState newState event m =
     (if newState < numstates m then
        (let m1 = call_out (StateLeft (curState m) event) m;
             m2 = m1\<lparr>curState := newState\<rparr>
         in (None, call_out (StateEntered (curState m2) event) m2))
      else (None, m))"

definition processEvent :: "string \<Rightarrow> engine \<Rightarrow> py_error option \<times> engine" where
  "processEvent event m =
     (if event \<in> set (events m) then
        (case getTransition m (curState m) event of
           Inl err \<Rightarrow> (Some err, m)
         | Inr newstate \<Rightarrow>
             if newstate \<ge> 0 then gotoState newstate event m
             else if debug m then
               (if event \<noteq> ''no_event''
                then (None, call_out (StateEvent (curState m) event) m)
                else (None, m))
             else (None, m))
      else (Some (ValueError (''Invalid event '' @ event)), m))"

section \<open>Event registry\<close>

definition addButton :: "string \<Rightarrow> engine \<Rightarrow> py_error option \<times> engine" where
  "addButton btnname m =
     (let event1 = btnname @ ''_press'';
          event2 = btnname @ ''_release''
      in if event1 \<in> set (events m) \<or> event2 \<in> set (events m) then
           (Some (ValueError (''There is already a button with the name '' @ btnname)), m)
         else
           (let m1 = m\<lparr>events := events m @ [event1]\<rparr>;
                m2 = m1\<lparr>events := events m1 @ [event2]\<rparr>;
                m3 = call_out (ButtonSetHandler btnname True) m2
            in (None, m3\<lparr>buttons := buttons m3 @ [btnname]\<rparr>)))"

definition buttonPressed :: "string \<Rightarrow> engine \<Rightarrow> py_error option \<times> engine" where
  "buttonPressed name m = processEvent (name @ ''_press'') m"

definition buttonReleased :: "string \<Rightarrow> engine \<Rightarrow> py_error option \<times> engine" where
  "buttonReleased name m = processEvent (name @ ''_release'') m"

definition addTimer :: "string \<Rightarrow> engine \<Rightarrow> py_error option \<times> engine" where
  "addTimer timername m =
     (let eventname = timername @ ''_timeout''
      in if eventname \<in> set (events m) then
           (Some (ValueError (''A timer with name '' @ timername @ '' already exists'')), m)
         else
           (let m1 = m\<lparr>events := events m @ [eventname]\<rparr>;
                m2 = call_out (TimerSetHandler timername True) m1
            in (None, m2\<lparr>timers := timers m2 @ [timername]\<rparr>)))"

definition addCustomEvent :: "string \<Rightarrow> engine \<Rightarrow> py_error option \<times> engine" where
  "addCustomEvent event m =
     (if event \<in> set (events m) then
        (Some (ValueError (''An event with the name '' @ event @ '' already exists'')), m)
      else (None, m\<lparr>events := events m @ [event]\<rparr>))"

definition timeout :: "string \<Rightarrow> engine \<Rightarrow> py_error option \<times> engine" where
  "timeout name m = processEvent (name @ ''_timeout'') m"

section \<open>Sequences of calls\<close>

text \<open>
  A client drives the engine through its methods, and builds the row objects it passes
  to \<open>setTransitionTable\<close>. An exception is raised to the client, which may catch it and
  go on with the engine as the failed call left it.
\<close>

datatype api =
    NewList entries
  | AddTransition int "string list" int
  | SetTransitionTable "nat list"
  | Start
  | Stop
  | GotoState int string
  | ProcessEvent string
  | AddButton string
  | ButtonPressed string
  | ButtonReleased string
  | AddTimer string
  | AddCustomEvent string
  | Timeout string

fun exec :: "api \<Rightarrow> engine \<Rightarrow> py_error option \<times> engine" where
  "exec (NewList l) m = newList l m"
| "exec (AddTransition fromState evs toState) m = addTransition fromState evs toState m"
| "exec (SetTransitionTable rows) m = setTransitionTable rows m"
| "exec Start m = start m"
| "exec Stop m = stop m"
| "exec (GotoState newState event) m = gotoState newState event m"
| "exec (ProcessEvent event) m = processEvent event m"
| "exec (AddButton btnname) m = addButton btnname m"
| "exec (ButtonPressed name) m = buttonPressed name m"
| "exec (ButtonReleased name) m = buttonReleased name m"
| "exec (AddTimer timername) m = addTimer timername m"
| "exec (AddCustomEvent event) m = addCustomEvent event m"
| "exec (Timeout name) m = timeout name m"

fun run_calls :: "api list \<Rightarrow> engine \<Rightarrow> engine" where
  "run_calls [] m = m"
| "run_calls (c # cs) m = run_calls cs (snd (exec c m))"

section \<open>The fan controller's state model\<close>

text \<open>
  The engine as \<open>TemperatureFanControl.__init__\<close> sets it up: four states, four custom
  events and six transitions. The controller passes \<open>debug=True\<close>; the flag is kept as
  a parameter here, the constructor's default being \<open>False\<close>.
\<close>

definition fan_setup :: "api list" where
  "fan_setup =
     [AddCustomEvent ''fan1_on'', AddCustomEvent ''both_fans_on'',
      AddCustomEvent ''critical_temp'', AddCustomEvent ''temp_drop'',
      AddTransition 0 [''fan1_on''] 1,
      AddTransition 1 [''both_fans_on''] 2,
      AddTransition 2 [''critical_temp''] 3,
      AddTransition 3 [''temp_drop''] 2,
      AddTransition 2 [''temp_drop''] 1,
      AddTransition 1 [''temp_drop''] 0]"

definition fan_model :: "bool \<Rightarrow> engine" where
  "fan_model dbg = run_calls fan_setup (StateModel 4 dbg)"

text \<open>
  A two-state engine with one button and one timer attached, as \<open>addButton\<close> and
  \<open>addTimer\<close> leave it.
\<close>

definition panel_model :: engine where
  "panel_model = run_calls [AddButton ''a'', AddTimer ''t''] (StateModel 2 False)"

text \<open>The table has one row per declared state, as the constructor builds it.\<close>

definition table_sized :: "engine \<Rightarrow> bool" where
  "table_sized m \<longleftrightarrow> length (transitions m) = nat (numstates m)"

text \<open>
  Every reference held by the table names an object of the heap: Python has no dangling
  references.
\<close>

definition refs_ok :: "engine \<Rightarrow> bool" where
  "refs_ok m \<longleftrightarrow> (\<forall>a. Some a \<in> set (transitions m) \<longrightarrow> a < length (heap m))"

text \<open>
  Two rows of one object: the client builds one list, passes it as both rows of the
  table and registers the event \<open>x\<close>.
\<close>

definition shared_model :: engine where
  "shared_model =
     run_calls [AddCustomEvent ''x'', NewList [(''no_event'', 1)], SetTransitionTable [0, 0]]
       (StateModel 2 False)"

text \<open>
  A stopped two-state engine whose last row holds a pair with a target that is not a
  state.
\<close>

definition stray_model :: engine where
  "stray_model =
     run_calls [AddCustomEvent ''x'', AddTransition 1 [''x''] 5] (StateModel 2 True)"

text \<open>
  A stopped engine whose table has two rows and whose state count is 1: the failed
  \<open>setTransitionTable\<close> has reset the count and left the table.
\<close>

definition unsized_model :: engine where
  "unsized_model =
     run_calls [AddCustomEvent ''x'', AddTransition 0 [''no_event''] 0,
        AddTransition 1 [''x''] 0, NewList [(''bogus'', 0)], SetTransitionTable [2]]
       (StateModel 2 True)"

section \<open>Basic facts\<close>

lemma fan_model_value:
  "fan_model dbg =
     \<lparr>numstates = 4, running = False,
      transitions = [Some 0, Some 1, Some 2, Some 3],
      curState = - 1, debug = dbg,
      events = [''no_event'', ''fan1_on'', ''both_fans_on'', ''critical_temp'', ''temp_drop''],
      buttons = [], timers = [], trace = [],
      heap =
        [[(''fan1_on'', 1)],
         [(''both_fans_on'', 2), (''temp_drop'', 0)],
         [(''critical_temp'', 3), (''temp_drop'', 1)],
         [(''temp_drop'', 2)]]\<rparr>"
  by (simp add: fan_model_def fan_setup_def StateModel_def addCustomEvent_def
      append_entry_def row_object_def new_row_def getitem_def valid_index_def norm_index_def
      numeral_eq_Suc)

lemma fan_started_value:
  "snd (start (fan_model dbg)) =
     \<lparr>numstates = 4, running = True,
      transitions = [Some 0, Some 1, Some 2, Some 3],
      curState = 0, debug = dbg,
      events = [''no_event'', ''fan1_on'', ''both_fans_on'', ''critical_temp'', ''temp_drop''],
      buttons = [], timers = [], trace = [(StateEntered 0 ''no_event'', 0)],
      heap =
        [[(''fan1_on'', 1)],
         [(''both_fans_on'', 2), (''temp_drop'', 0)],
         [(''critical_temp'', 3), (''temp_drop'', 1)],
         [(''temp_drop'', 2)]]\<rparr>"
  by (simp add: fan_model_value start_def call_out_def)

lemma panel_model_value:
  "panel_model =
      \<lparr>numstates = 2, running = False, transitions = [None, None], curState = - 1,
       debug = False, events = [''no_event'', ''a_press'', ''a_release'', ''t_timeout''],
       buttons = [''a''], timers = [''t''],
       trace = [(ButtonSetHandler ''a'' True, - 1), (TimerSetHandler ''t'' True, - 1)],
       heap = []\<rparr>"
  by (simp add: panel_model_def addButton_def addTimer_def StateModel_def call_out_def
      numeral_eq_Suc)

lemma panel_started_value:
  "snd (start panel_model) =
      \<lparr>numstates = 2, running = True, transitions = [None, None], curState = 0,
       debug = False, events = [''no_event'', ''a_press'', ''a_release'', ''t_timeout''],
       buttons = [''a''], timers = [''t''],
       trace = [(ButtonSetHandler ''a'' True, - 1), (TimerSetHandler ''t'' True, - 1),
                (StateEntered 0 ''no_event'', 0)],
       heap = []\<rparr>"
  by (simp add: panel_model_value start_def call_out_def)

lemma shared_model_value:
  "shared_model =
      \<lparr>numstates = 2, running = False, transitions = [Some 0, Some 0], curState = - 1,
       debug = False, events = [''no_event'', ''x''], buttons = [], timers = [], trace = [],
       heap = [[(''no_event'', 1)]]\<rparr>"
  by (simp add: shared_model_def addCustomEvent_def newList_def setTransitionTable_def
      StateModel_def numeral_eq_Suc)

lemma stray_model_value:
  "stray_model =
      \<lparr>numstates = 2, running = False, transitions = [None, Some 0], curState = - 1,
       debug = True, events = [''no_event'', ''x''], buttons = [], timers = [], trace = [],
       heap = [[(''x'', 5)]]\<rparr>"
  by (simp add: stray_model_def addCustomEvent_def StateModel_def append_entry_def
      row_object_def new_row_def getitem_def valid_index_def norm_index_def numeral_eq_Suc)

lemma unsized_model_value:
  "unsized_model =
      \<lparr>numstates = 1, running = False, transitions = [Some 0, Some 1], curState = - 1,
       debug = True, events = [''no_event'', ''x''], buttons = [], timers = [], trace = [],
       heap = [[(''no_event'', 0)], [(''x'', 0)], [(''bogus'', 0)]]\<rparr>"
  by (simp add: unsized_model_def addCustomEvent_def newList_def setTransitionTable_def
      StateModel_def append_entry_def row_object_def new_row_def getitem_def valid_index_def
      norm_index_def numeral_eq_Suc)

lemmas py_simps = getitem_def valid_index_def norm_index_def append_entry_def row_object_def
  new_row_def

lemma call_out_fields [simp]:
  "numstates (call_out c m) = numstates m"
  "running (call_out c m) = running m"
  "transitions (call_out c m) = transitions m"
  "curState (call_out c m) = curState m"
  "debug (call_out c m) = debug m"
  "events (call_out c m) = events m"
  "buttons (call_out c m) = buttons m"
  "timers (call_out c m) = timers m"
  "trace (call_out c m) = trace m @ [(c, curState m)]"
  "heap (call_out c m) = heap m"
  by (simp_all add: call_out_def)

subsection \<open>List subscripts\<close>

lemma norm_index_less: "valid_index xs i \<Longrightarrow> norm_index xs i < length xs"
  by (auto simp: valid_index_def norm_index_def)

lemma valid_index_update [simp]: "valid_index (xs[j := v]) i = valid_index xs i"
  by (simp add: valid_index_def)

lemma norm_index_update [simp]: "norm_index (xs[j := v]) i = norm_index xs i"
  by (simp add: norm_index_def)

subsection \<open>Looking a transition up\<close>

text \<open>The loop of \<open>getTransition\<close> returns what the first pair with the event holds.\<close>

lemma first_match_map_of:
  "first_match r event = (case map_of r event of None \<Rightarrow> - 1 | Some s \<Rightarrow> s)"
  by (induction r event rule: first_match.induct) auto

lemma getTransition_populated:
  assumes "getitem (transitions m) s = Inr (Some a)"
  shows "getTransition m s event =
     Inr (case map_of (heap m ! a) event of None \<Rightarrow> - 1 | Some t \<Rightarrow> t)"
  using assms by (simp add: getTransition_def first_match_map_of)

subsection \<open>Adding transitions\<close>

text \<open>
  One iteration of \<open>addTransition\<close> on a row that exists: a row that is \<open>None\<close> or
  empty becomes a new list object holding the pair; a non-empty row's object is extended
  in place.
\<close>

lemma append_entry_eq:
  assumes "valid_index (transitions m) fromState"
  shows "append_entry fromState p m =
     Inr (case transitions m ! norm_index (transitions m) fromState of
            None \<Rightarrow>
              m\<lparr>transitions := (transitions m)[norm_index (transitions m) fromState :=
                                  Some (length (heap m))],
                heap := heap m @ [[p]]\<rparr>
          | Some a \<Rightarrow>
              if heap m ! a = [] then
                m\<lparr>transitions := (transitions m)[norm_index (transitions m) fromState :=
                                    Some (length (heap m))],
                  heap := heap m @ [[p]]\<rparr>
              else m\<lparr>heap := (heap m)[a := heap m ! a @ [p]]\<rparr>)"
  using assms
  by (simp add: append_entry_def row_object_def new_row_def getitem_def split: option.splits)

lemma addTransition_eq:
  assumes "valid_index (transitions m) fromState"
  shows "addTransition fromState evs toState m =
     ((if set evs \<subseteq> set (events m) then None
       else Some (ValueError (''Invalid event '' @ hd (dropWhile (\<lambda>e. e \<in> set (events m)) evs)))),
      (if takeWhile (\<lambda>e. e \<in> set (events m)) evs = [] then m
       else case transitions m ! norm_index (transitions m) fromState of
              None \<Rightarrow>
                m\<lparr>transitions := (transitions m)[norm_index (transitions m) fromState :=
                                    Some (length (heap m))],
                  heap := heap m @
                    [map (\<lambda>e. (e, toState)) (takeWhile (\<lambda>e. e \<in> set (events m)) evs)]\<rparr>
            | Some a \<Rightarrow>
                if heap m ! a = [] then
                  m\<lparr>transitions := (transitions m)[norm_index (transitions m) fromState :=
                                      Some (length (heap m))],
                    heap := heap m @
                      [map (\<lambda>e. (e, toState)) (takeWhile (\<lambda>e. e \<in> set (events m)) evs)]\<rparr>
                else
                  m\<lparr>heap := (heap m)[a := heap m ! a @
                      map (\<lambda>e. (e, toState)) (takeWhile (\<lambda>e. e \<in> set (events m)) evs)]\<rparr>))"
  using assms
proof (induction evs arbitrary: m)
  case Nil
  then show ?case by simp
next
  case (Cons event rest)
  let ?j = "norm_index (transitions m) fromState"
  let ?n = "length (heap m)"
  show ?case
  proof (cases "event \<in> set (events m)")
    case False
    then show ?thesis by simp
  next
    case True
    have j: "?j < length (transitions m)"
      using Cons.prems by (rule norm_index_less)
    show ?thesis
    proof (cases "transitions m ! ?j = None \<or> (\<exists>a. transitions m ! ?j = Some a \<and> heap m ! a = [])")
      case fresh: True
      let ?m = "m\<lparr>transitions := (transitions m)[?j := Some ?n],
                  heap := heap m @ [[(event, toState)]]\<rparr>"
      have app: "append_entry fromState (event, toState) m = Inr ?m"
        using fresh by (auto simp: append_entry_eq [OF Cons.prems])
      have step: "addTransition fromState (event # rest) toState m =
          addTransition fromState rest toState ?m"
        using True app by simp
      have v: "valid_index (transitions ?m) fromState"
        using Cons.prems by simp
      show ?thesis
        unfolding step Cons.IH [OF v]
        using True j fresh by (auto simp: nth_append)
    next
      case inplace: False
      then obtain a where a: "transitions m ! ?j = Some a" and ne: "heap m ! a \<noteq> []"
        by (cases "transitions m ! ?j") auto
      let ?m = "m\<lparr>heap := (heap m)[a := heap m ! a @ [(event, toState)]]\<rparr>"
      have app: "append_entry fromState (event, toState) m = Inr ?m"
        using a ne by (simp add: append_entry_eq [OF Cons.prems])
      have step: "addTransition fromState (event # rest) toState m =
          addTransition fromState rest toState ?m"
        using True app by simp
      have v: "valid_index (transitions ?m) fromState"
        using Cons.prems by simp
      show ?thesis
      proof (cases "a < length (heap m)")
        case True
        show ?thesis
          unfolding step Cons.IH [OF v]
          using \<open>event \<in> set (events m)\<close> a ne True by simp
      next
        case False
        then have "length (heap m) \<le> a"
          by simp
        then have same: "(heap m)[a := w] = heap m" for w
          by (rule list_update_beyond)
        show ?thesis
          unfolding step Cons.IH [OF v]
          using \<open>event \<in> set (events m)\<close> a ne by (simp add: same)
      qed
    qed
  qed
qed

lemma append_entry_fields:
  assumes "append_entry fromState p m = Inr m1"
  shows "events m1 = events m" and "numstates m1 = numstates m"
    and "length (transitions m1) = length (transitions m)"
  using assms
  by (auto simp: append_entry_def row_object_def new_row_def split: sum.splits option.splits
      if_splits)

lemma addTransition_events [simp]:
  "events (snd (addTransition fromState evs toState m)) = events m"
  by (induction evs arbitrary: m) (auto split: sum.splits dest: append_entry_fields)

lemma addTransition_numstates [simp]:
  "numstates (snd (addTransition fromState evs toState m)) = numstates m"
  by (induction evs arbitrary: m) (auto split: sum.splits dest: append_entry_fields)

lemma addTransition_length [simp]:
  "length (transitions (snd (addTransition fromState evs toState m))) = length (transitions m)"
  by (induction evs arbitrary: m) (auto split: sum.splits dest: append_entry_fields)

text \<open>
  Two rows that are one object, the case of \<open>[row] * 2\<close>: what \<open>addTransition\<close>
  appends to row 0 shows in row 1 as well.
\<close>

lemma addTransition_shared_rows:
  "addTransition 0 [''x''] 0 shared_model =
     (None, shared_model\<lparr>heap := [[(''no_event'', 1), (''x'', 0)]]\<rparr>) \<and>
   getTransition (snd (addTransition 0 [''x''] 0 shared_model)) 1 ''x'' = Inr 0 \<and>
   getTransition shared_model 1 ''x'' = Inr (- 1)"
  by (simp add: shared_model_value getTransition_def py_simps)

subsection \<open>Validating a table\<close>

lemma check_row_None: "check_row evs r = None \<longleftrightarrow> (\<forall>p\<in>set r. fst p \<in> set evs)"
  by (induction evs r rule: check_row.induct) auto

lemma check_row_Some:
  "check_row evs r = Some err \<Longrightarrow>
     \<exists>p\<in>set r. fst p \<notin> set evs \<and> err = ValueError (''Invalid event '' @ fst p)"
  by (induction evs r rule: check_row.induct) (auto split: if_splits)

lemma check_rows_None:
  "check_rows evs rows = None \<longleftrightarrow> (\<forall>r\<in>set rows. \<forall>p\<in>set r. fst p \<in> set evs)"
proof (induction rows)
  case Nil
  then show ?case by simp
next
  case (Cons r rs)
  show ?case
    using Cons check_row_None [of evs r] by (cases "check_row evs r") auto
qed

lemma check_rows_Some:
  "check_rows evs rows = Some err \<Longrightarrow>
     \<exists>r\<in>set rows. \<exists>p\<in>set r. fst p \<notin> set evs \<and> err = ValueError (''Invalid event '' @ fst p)"
proof (induction rows)
  case Nil
  then show ?case by simp
next
  case (Cons r rs)
  show ?case
  proof (cases "check_row evs r")
    case None
    with Cons show ?thesis by auto
  next
    case (Some e)
    with Cons.prems have "check_row evs r = Some err" by simp
    from check_row_Some [OF this] show ?thesis by auto
  qed
qed

subsection \<open>Transitions and in-state events\<close>

lemma gotoState_in_range:
  "newState < numstates m \<Longrightarrow>
     gotoState newState event m =
       (None, m\<lparr>curState := newState,
                 trace := trace m @ [(StateLeft (curState m) event, curState m),
                                     (StateEntered newState event, newState)]\<rparr>)"
  by (simp add: gotoState_def call_out_def)

text \<open>
  A negative target passes the only test \<open>gotoState\<close> makes, so the engine moves to it.
\<close>

lemma gotoState_negative_target:
  "gotoState (- 2) ''no_event'' (snd (start (fan_model True))) =
     (None, (snd (start (fan_model True)))\<lparr>curState := - 2,
        trace := [(StateEntered 0 ''no_event'', 0), (StateLeft 0 ''no_event'', 0),
                  (StateEntered (- 2) ''no_event'', - 2)]\<rparr>)"
  by (simp add: gotoState_def fan_started_value call_out_def)

text \<open>
  With no pair for the event in a populated row, the handler's \<open>stateEvent\<close> is called
  only when the engine was built with \<open>debug\<close> on.
\<close>

lemma processEvent_no_transition:
  assumes "event \<in> set (events m)" and "getitem (transitions m) (curState m) = Inr (Some a)"
    and "map_of (heap m ! a) event = None"
  shows "processEvent event m =
     (None, if debug m \<and> event \<noteq> ''no_event''
            then m\<lparr>trace := trace m @ [(StateEvent (curState m) event, curState m)]\<rparr> else m)"
  using assms by (simp add: processEvent_def getTransition_def first_match_map_of call_out_def)

text \<open>Scenario B on the fan controller, which builds its engine with \<open>debug=True\<close>.\<close>

lemma scenario_B:
  "processEvent ''temp_drop'' (snd (start (fan_model True))) =
     (None, (snd (start (fan_model True)))
        \<lparr>trace := [(StateEntered 0 ''no_event'', 0), (StateEvent 0 ''temp_drop'', 0)]\<rparr>)"
  by (simp add: fan_started_value processEvent_def getTransition_def call_out_def py_simps)

subsection \<open>Stopping\<close>

lemma fold_call_out:
  "fold (\<lambda>b. call_out (f b)) bs m = m\<lparr>trace := trace m @ map (\<lambda>b. (f b, curState m)) bs\<rparr>"
  by (induction bs arbitrary: m) (simp_all add: call_out_def)

lemma fold_call_out2:
  "fold (\<lambda>t mm. call_out (g t) (call_out (f t) mm)) ts m =
     m\<lparr>trace := trace m @ concat (map (\<lambda>t. [(f t, curState m), (g t, curState m)]) ts)\<rparr>"
  by (induction ts arbitrary: m) (simp_all add: call_out_def)

lemma stop_eq:
  "stop m =
     (None, m\<lparr>running := False, curState := - 1,
        trace := trace m @
          (if running m then [(StateLeft (curState m) ''no_event'', curState m)] else []) @
          map (\<lambda>b. (ButtonSetHandler b False, curState m)) (buttons m) @
          concat (map (\<lambda>t. [(TimerSetHandler t False, curState m), (TimerCancel t, curState m)])
            (timers m))\<rparr>)"
  unfolding stop_def Let_def fold_call_out fold_call_out2
  by (simp add: call_out_def)

subsection \<open>What the calls leave alone\<close>

lemma setTransitionTable_events [simp]: "events (snd (setTransitionTable rows m)) = events m"
  by (simp add: setTransitionTable_def Let_def split: option.splits)

lemma gotoState_events [simp]: "events (snd (gotoState newState event m)) = events m"
  by (simp add: gotoState_def Let_def)

lemma processEvent_events [simp]: "events (snd (processEvent event m)) = events m"
  by (simp add: processEvent_def split: sum.splits)

lemma start_events [simp]: "events (snd (start m)) = events m"
  by (simp add: start_def Let_def)

lemma stop_events [simp]: "events (snd (stop m)) = events m"
  by (simp add: stop_eq)

lemma addButton_distinct:
  "distinct (events m) \<Longrightarrow> distinct (events (snd (addButton btnname m)))"
  by (simp add: addButton_def Let_def)

lemma addTimer_distinct:
  "distinct (events m) \<Longrightarrow> distinct (events (snd (addTimer timername m)))"
  by (simp add: addTimer_def Let_def)

lemma addCustomEvent_distinct:
  "distinct (events m) \<Longrightarrow> distinct (events (snd (addCustomEvent event m)))"
  by (simp add: addCustomEvent_def)

lemma exec_distinct: "distinct (events m) \<Longrightarrow> distinct (events (snd (exec c m)))"
  by (cases c)
    (simp_all add: addButton_distinct addTimer_distinct addCustomEvent_distinct
      buttonPressed_def buttonReleased_def timeout_def newList_def)

lemma run_calls_distinct: "distinct (events m) \<Longrightarrow> distinct (events (run_calls cs m))"
  by (induction cs arbitrary: m) (simp_all add: exec_distinct)

text \<open>
  The table keeps one row per declared state through every call, except through a
  \<open>setTransitionTable\<close> that raises after it has reset the state count.
\<close>

lemma StateModel_table_sized: "table_sized (StateModel n dbg)"
  by (simp add: table_sized_def StateModel_def)

lemma exec_table_sized:
  "table_sized m \<Longrightarrow> fst (exec c m) = None \<or> (\<forall>rows. c \<noteq> SetTransitionTable rows) \<Longrightarrow>
     table_sized (snd (exec c m))"
  by (cases c)
    (auto simp: table_sized_def setTransitionTable_def Let_def start_def stop_eq gotoState_def
      processEvent_def buttonPressed_def buttonReleased_def timeout_def addButton_def
      addTimer_def addCustomEvent_def newList_def split: option.splits sum.splits)

text \<open>
  The calls keep the table's references inside the heap, provided the rows passed to
  \<open>setTransitionTable\<close> are objects of the heap.
\<close>

lemma StateModel_refs_ok: "refs_ok (StateModel n dbg)"
  by (simp add: refs_ok_def StateModel_def)

lemma append_entry_refs_ok:
  assumes "refs_ok m" and "append_entry fromState p m = Inr m1"
  shows "refs_ok m1"
proof -
  have upd: "Some a \<in> set ((transitions m)[j := Some (length (heap m))]) \<Longrightarrow>
      a < Suc (length (heap m))" for a j
    using assms(1) set_update_subset_insert [of "transitions m" j "Some (length (heap m))"]
    by (auto simp: refs_ok_def less_Suc_eq)
  show ?thesis
    using assms upd
    by (auto simp: append_entry_def row_object_def new_row_def refs_ok_def
        split: sum.splits option.splits if_splits)
qed

lemma addTransition_refs_ok:
  "refs_ok m \<Longrightarrow> refs_ok (snd (addTransition fromState evs toState m))"
  by (induction evs arbitrary: m) (auto split: sum.splits dest: append_entry_refs_ok)

lemma exec_refs_ok:
  "refs_ok m \<Longrightarrow>
   (\<forall>rows. c = SetTransitionTable rows \<longrightarrow> (\<forall>a\<in>set rows. a < length (heap m))) \<Longrightarrow>
     refs_ok (snd (exec c m))"
proof (cases c)
  case (AddTransition fromState evs toState)
  assume "refs_ok m"
  with AddTransition show ?thesis by (simp add: addTransition_refs_ok)
next
  case (SetTransitionTable rows)
  assume "refs_ok m"
    and "\<forall>rows. c = SetTransitionTable rows \<longrightarrow> (\<forall>a\<in>set rows. a < length (heap m))"
  with SetTransitionTable show ?thesis
    by (auto simp: refs_ok_def setTransitionTable_def Let_def split: option.splits)
qed (auto simp: refs_ok_def newList_def start_def stop_eq gotoState_def processEvent_def
    buttonPressed_def buttonReleased_def timeout_def addButton_def addTimer_def
    addCustomEvent_def call_out_def Let_def split: sum.splits)

section \<open>Claims\<close>

text \<open>
  C1. For every event name that is not in the event registry, \<open>processEvent\<close> raises the
  configuration error \<open>ValueError\<close> and leaves the whole engine state, \<open>_curState\<close>
  included, as it was, whatever the current state and whether the engine runs or not.
\<close>

theorem processEvent_unregistered:
  "event \<notin> set (events m) \<Longrightarrow>
     processEvent event m = (Some (ValueError (''Invalid event '' @ event)), m)"
  by (simp add: processEvent_def)

theorem processEvent_unregistered_witness:
  "''bogus'' \<notin> set (events (fan_model True)) \<and>
   processEvent ''bogus'' (fan_model True) =
     (Some (ValueError ''Invalid event bogus''), fan_model True)"
  using processEvent_unregistered [of "''bogus''" "fan_model True"]
  by (simp add: fan_model_value)

text \<open>
  C2. A registered event other than \<open>no_event\<close> for which the current state's row has no
  transition should reach the handler as \<open>stateEvent(currentState, event)\<close>, once, with
  \<open>_curState\<close> unchanged. The engine makes that call only inside \<open>if self._debug\<close>: on
  the fan controller's table built with the constructor's default \<open>debug=False\<close> and
  started, \<open>processEvent("temp_drop")\<close> in state 0 returns without any call to the
  handler; the trace still holds the entry into state 0 alone.
\<close>

theorem processEvent_in_state_debug_off:
  "processEvent ''temp_drop'' (snd (start (fan_model False))) =
     (None, snd (start (fan_model False))) \<and>
   trace (snd (start (fan_model False))) = [(StateEntered 0 ''no_event'', 0)]"
  by (simp add: fan_started_value processEvent_def getTransition_def py_simps)

text \<open>
  C3. Every transition, whether \<open>processEvent\<close> finds a pair for the event in the current
  state's row or \<open>gotoState\<close> is called directly, makes exactly two handler calls around
  the assignment: \<open>stateLeft\<close> with the old state and the event while \<open>_curState\<close> still
  is the old state, then \<open>stateEntered\<close> with the new state and the same event once
  \<open>_curState\<close> is the new state. A transition is a call whose target passes the test of
  \<open>gotoState\<close> (and, from the table, is not negative).
\<close>

theorem transition_call_order:
  "(newState < numstates m \<longrightarrow>
      gotoState newState event m =
        (None, m\<lparr>curState := newState,
                  trace := trace m @ [(StateLeft (curState m) event, curState m),
                                      (StateEntered newState event, newState)]\<rparr>)) \<and>
   (event \<in> set (events m) \<and> getitem (transitions m) (curState m) = Inr (Some a) \<and>
    map_of (heap m ! a) event = Some target \<and> 0 \<le> target \<and> target < numstates m \<longrightarrow>
      processEvent event m =
        (None, m\<lparr>curState := target,
                  trace := trace m @ [(StateLeft (curState m) event, curState m),
                                      (StateEntered target event, target)]\<rparr>))"
  by (simp add: gotoState_in_range processEvent_def getTransition_def first_match_map_of)

theorem transition_call_order_witness:
  "1 < numstates (snd (start (fan_model True))) \<and>
   gotoState 1 ''fan1_on'' (snd (start (fan_model True))) =
     (None, (snd (start (fan_model True)))\<lparr>curState := 1,
        trace := [(StateEntered 0 ''no_event'', 0), (StateLeft 0 ''fan1_on'', 0),
                  (StateEntered 1 ''fan1_on'', 1)]\<rparr>) \<and>
   ''fan1_on'' \<in> set (events (snd (start (fan_model True)))) \<and>
   getitem (transitions (snd (start (fan_model True)))) (curState (snd (start (fan_model True))))
     = Inr (Some 0) \<and>
   map_of (heap (snd (start (fan_model True))) ! 0) ''fan1_on'' = Some 1 \<and>
   processEvent ''fan1_on'' (snd (start (fan_model True))) =
     (None, (snd (start (fan_model True)))\<lparr>curState := 1,
        trace := [(StateEntered 0 ''no_event'', 0), (StateLeft 0 ''fan1_on'', 0),
                  (StateEntered 1 ''fan1_on'', 1)]\<rparr>)"
  using transition_call_order [of 1 "snd (start (fan_model True))" "''fan1_on''" 0 1]
  by (simp add: fan_started_value py_simps)

text \<open>
  C4. The lookup of a state and a registered event should give the destination of the
  first pair for the event in the state's row, or -1 when there is none, also for a state
  that has no transitions. A row that was never populated is \<open>None\<close>, and
  \<open>getTransition\<close> iterates over it: on a new four-state engine the lookup for state 0
  and \<open>no_event\<close> raises \<open>TypeError\<close> instead of returning -1.
\<close>

theorem getTransition_unpopulated_row:
  "getTransition (StateModel 4 True) 0 ''no_event'' = Inl TypeError"
  by (simp add: getTransition_def StateModel_def py_simps numeral_eq_Suc)

text \<open>
  C5, as amended. For every target at or beyond the state count, \<open>gotoState\<close> does
  nothing: it raises no error, leaves \<open>_curState\<close> and the rest of the engine state as
  they were and calls no handler.
\<close>

theorem gotoState_beyond_last:
  "numstates m \<le> newState \<Longrightarrow> gotoState newState event m = (None, m)"
  by (simp add: gotoState_def)

theorem gotoState_beyond_last_witness:
  "numstates (snd (start (fan_model True))) \<le> 7 \<and>
   gotoState 7 ''temp_drop'' (snd (start (fan_model True))) = (None, snd (start (fan_model True)))"
  using gotoState_beyond_last [of "snd (start (fan_model True))" 7 "''temp_drop''"]
  by (simp add: fan_started_value)

text \<open>
  C5 as stated fails: on the started four-state fan engine, \<open>gotoState(4)\<close> returns
  normally; no configuration error is raised.
\<close>

theorem out_of_range_target_not_rejected:
  "fst (gotoState 4 ''no_event'' (snd (start (fan_model True)))) = None"
  by (simp add: gotoState_def fan_started_value)

text \<open>
  C6, as amended. \<open>setTransitionTable\<close> validates the event name of every pair against
  the registry before it commits the table. When all names are registered the call
  succeeds whatever the number of rows: the table becomes the given rows and the state
  count becomes their number. When some name is not registered the call raises a
  configuration error for an unregistered name of the table and the transition table is
  as before; if moreover the number of rows equals the state count, the whole engine
  state is as before.
\<close>

theorem setTransitionTable_validates:
  "(set (map fst (concat (map (\<lambda>a. heap m ! a) rows))) \<subseteq> set (events m) \<longrightarrow>
      setTransitionTable rows m =
        (None, m\<lparr>numstates := int (length rows), transitions := map Some rows\<rparr>)) \<and>
   (\<not> set (map fst (concat (map (\<lambda>a. heap m ! a) rows))) \<subseteq> set (events m) \<longrightarrow>
      (\<exists>e\<in>set (map fst (concat (map (\<lambda>a. heap m ! a) rows))). e \<notin> set (events m) \<and>
         fst (setTransitionTable rows m) = Some (ValueError (''Invalid event '' @ e))) \<and>
      transitions (snd (setTransitionTable rows m)) = transitions m \<and>
      heap (snd (setTransitionTable rows m)) = heap m \<and>
      (int (length rows) = numstates m \<longrightarrow> snd (setTransitionTable rows m) = m))"
proof (intro conjI impI)
  assume "set (map fst (concat (map (\<lambda>a. heap m ! a) rows))) \<subseteq> set (events m)"
  then have "check_rows (events m) (map (\<lambda>a. heap m ! a) rows) = None"
    by (auto simp: check_rows_None)
  then show "setTransitionTable rows m =
        (None, m\<lparr>numstates := int (length rows), transitions := map Some rows\<rparr>)"
    by (simp add: setTransitionTable_def)
next
  assume bad: "\<not> set (map fst (concat (map (\<lambda>a. heap m ! a) rows))) \<subseteq> set (events m)"
  then have "check_rows (events m) (map (\<lambda>a. heap m ! a) rows) \<noteq> None"
    by (auto simp: check_rows_None)
  then obtain err where err: "check_rows (events m) (map (\<lambda>a. heap m ! a) rows) = Some err"
    by auto
  from check_rows_Some [OF err]
  show "\<exists>e\<in>set (map fst (concat (map (\<lambda>a. heap m ! a) rows))). e \<notin> set (events m) \<and>
         fst (setTransitionTable rows m) = Some (ValueError (''Invalid event '' @ e))"
    using err by (auto simp: setTransitionTable_def)
  show "transitions (snd (setTransitionTable rows m)) = transitions m"
    using err by (simp add: setTransitionTable_def)
  show "heap (snd (setTransitionTable rows m)) = heap m"
    using err by (simp add: setTransitionTable_def)
  show "snd (setTransitionTable rows m) = m" if "int (length rows) = numstates m"
    using err that by (simp add: setTransitionTable_def)
qed

theorem setTransitionTable_validates_witness:
  "set (map fst (concat (map (\<lambda>a. heap ((StateModel 4 False)\<lparr>heap := [[(''no_event'', 1)], []]\<rparr>) ! a)
       [0, 1]))) \<subseteq> set (events ((StateModel 4 False)\<lparr>heap := [[(''no_event'', 1)], []]\<rparr>)) \<and>
   setTransitionTable [0, 1] ((StateModel 4 False)\<lparr>heap := [[(''no_event'', 1)], []]\<rparr>) =
     (None, (StateModel 4 False)\<lparr>numstates := 2, transitions := [Some 0, Some 1],
        heap := [[(''no_event'', 1)], []]\<rparr>) \<and>
   \<not> set (map fst (concat (map (\<lambda>a. heap ((StateModel 2 False)
         \<lparr>heap := [[(''no_event'', 1)], [(''bogus'', 0)]]\<rparr>) ! a) [0, 1])))
       \<subseteq> set (events ((StateModel 2 False)\<lparr>heap := [[(''no_event'', 1)], [(''bogus'', 0)]]\<rparr>)) \<and>
   fst (setTransitionTable [0, 1]
       ((StateModel 2 False)\<lparr>heap := [[(''no_event'', 1)], [(''bogus'', 0)]]\<rparr>)) =
     Some (ValueError ''Invalid event bogus'') \<and>
   int (length [0::nat, 1]) =
     numstates ((StateModel 2 False)\<lparr>heap := [[(''no_event'', 1)], [(''bogus'', 0)]]\<rparr>) \<and>
   snd (setTransitionTable [0, 1]
       ((StateModel 2 False)\<lparr>heap := [[(''no_event'', 1)], [(''bogus'', 0)]]\<rparr>)) =
     (StateModel 2 False)\<lparr>heap := [[(''no_event'', 1)], [(''bogus'', 0)]]\<rparr>"
  using setTransitionTable_validates [of "(StateModel 4 False)\<lparr>heap := [[(''no_event'', 1)], []]\<rparr>"
      "[0, 1]"]
    setTransitionTable_validates [of
      "(StateModel 2 False)\<lparr>heap := [[(''no_event'', 1)], [(''bogus'', 0)]]\<rparr>" "[0, 1]"]
  by (simp add: StateModel_def)

text \<open>
  C6 as stated fails: one row given to a four-state engine raises nothing, and the call
  replaces the table and sets the state count to 1; with an unregistered name in that
  row the call raises, and the state count is 1 all the same.
\<close>

theorem setTransitionTable_row_count_not_checked:
  "setTransitionTable [0] ((StateModel 4 False)\<lparr>heap := [[]]\<rparr>) =
     (None, (StateModel 4 False)\<lparr>numstates := 1, transitions := [Some 0], heap := [[]]\<rparr>) \<and>
   setTransitionTable [0] ((StateModel 4 False)\<lparr>heap := [[(''bogus'', 0)]]\<rparr>) =
     (Some (ValueError ''Invalid event bogus''),
      (StateModel 4 False)\<lparr>numstates := 1, heap := [[(''bogus'', 0)]]\<rparr>)"
  by (simp add: setTransitionTable_def StateModel_def)

text \<open>
  C7, as amended. When \<open>fromState\<close> is a valid row subscript and some name of
  \<open>eventNames\<close> is not registered, \<open>addTransition\<close> fails with a configuration error
  for the first unregistered name. The names before it, all registered, have been
  appended in their order, each paired with \<open>toState\<close>, to the list object of the row
  of \<open>fromState\<close>: a new list that replaces the row when the row was \<open>None\<close> or empty,
  and otherwise the row's own list, extended in place, so that every row that is this
  same list object holds the new pairs too. Nothing is appended for the unregistered
  name or the names after it; no other list object, no other row's reference and no
  other field changes. The engine state is exactly as before only when the first name
  of \<open>eventNames\<close> is unregistered.
\<close>

theorem addTransition_unregistered:
  assumes "valid_index (transitions m) fromState" and "\<not> set evs \<subseteq> set (events m)"
  shows "addTransition fromState evs toState m =
     (Some (ValueError (''Invalid event '' @ hd (dropWhile (\<lambda>e. e \<in> set (events m)) evs))),
      (if takeWhile (\<lambda>e. e \<in> set (events m)) evs = [] then m
       else case transitions m ! norm_index (transitions m) fromState of
              None \<Rightarrow>
                m\<lparr>transitions := (transitions m)[norm_index (transitions m) fromState :=
                                    Some (length (heap m))],
                  heap := heap m @
                    [map (\<lambda>e. (e, toState)) (takeWhile (\<lambda>e. e \<in> set (events m)) evs)]\<rparr>
            | Some a \<Rightarrow>
                if heap m ! a = [] then
                  m\<lparr>transitions := (transitions m)[norm_index (transitions m) fromState :=
                                      Some (length (heap m))],
                    heap := heap m @
                      [map (\<lambda>e. (e, toState)) (takeWhile (\<lambda>e. e \<in> set (events m)) evs)]\<rparr>
                else
                  m\<lparr>heap := (heap m)[a := heap m ! a @
                      map (\<lambda>e. (e, toState)) (takeWhile (\<lambda>e. e \<in> set (events m)) evs)]\<rparr>))"
  using assms by (simp add: addTransition_eq)

theorem addTransition_unregistered_witness:
  "valid_index (transitions shared_model) 0 \<and>
   \<not> set [''no_event'', ''x'', ''bogus'', ''no_event''] \<subseteq> set (events shared_model) \<and>
   addTransition 0 [''no_event'', ''x'', ''bogus'', ''no_event''] 0 shared_model =
     (Some (ValueError ''Invalid event bogus''),
      shared_model\<lparr>heap := [[(''no_event'', 1), (''no_event'', 0), (''x'', 0)]]\<rparr>) \<and>
   transitions shared_model = [Some 0, Some 0]"
  using addTransition_unregistered [of shared_model 0
      "[''no_event'', ''x'', ''bogus'', ''no_event'']" 0]
  by (simp add: shared_model_value py_simps)

text \<open>
  C7 as stated fails: on a new two-state engine, \<open>addTransition(0, ["no_event", "bogus"], 1)\<close>
  raises for \<open>bogus\<close> after it has made row 0 a list holding \<open>("no_event", 1)\<close>.
\<close>

theorem addTransition_partial:
  "addTransition 0 [''no_event'', ''bogus''] 1 (StateModel 2 False) =
     (Some (ValueError ''Invalid event bogus''),
      (StateModel 2 False)\<lparr>transitions := [Some 0, None], heap := [[(''no_event'', 1)]]\<rparr>) \<and>
   transitions (StateModel 2 False) = [None, None] \<and> heap (StateModel 2 False) = []"
  by (simp add: StateModel_def py_simps numeral_eq_Suc)

text \<open>
  C8. The names in the event registry are unique after any sequence of calls on a new
  engine, and each registration (\<open>addButton\<close> with \<open>name_press\<close> and \<open>name_release\<close>,
  \<open>addTimer\<close> with \<open>name_timeout\<close>, \<open>addCustomEvent\<close>) raises a configuration error
  when a name it composes is registered already, and then leaves the registry, and the
  rest of the engine state, as before the call.
\<close>

theorem registry_names_unique:
  "distinct (events (run_calls cs (StateModel n dbg))) \<and>
   (btnname @ ''_press'' \<in> set (events m) \<or> btnname @ ''_release'' \<in> set (events m) \<longrightarrow>
      addButton btnname m =
        (Some (ValueError (''There is already a button with the name '' @ btnname)), m)) \<and>
   (timername @ ''_timeout'' \<in> set (events m) \<longrightarrow>
      addTimer timername m =
        (Some (ValueError (''A timer with name '' @ timername @ '' already exists'')), m)) \<and>
   (event \<in> set (events m) \<longrightarrow>
      addCustomEvent event m =
        (Some (ValueError (''An event with the name '' @ event @ '' already exists'')), m))"
proof -
  have "distinct (events (StateModel n dbg))"
    by (simp add: StateModel_def)
  then have "distinct (events (run_calls cs (StateModel n dbg)))"
    by (rule run_calls_distinct)
  then show ?thesis
    by (simp add: addButton_def addTimer_def addCustomEvent_def)
qed

theorem registry_names_unique_witness:
  "distinct (events (run_calls [AddButton ''a'', AddCustomEvent ''a_press'', AddButton ''a'']
      (StateModel 2 False))) \<and>
   ''a'' @ ''_press'' \<in> set (events panel_model) \<and>
   addButton ''a'' panel_model =
     (Some (ValueError ''There is already a button with the name a''), panel_model) \<and>
   ''t'' @ ''_timeout'' \<in> set (events panel_model) \<and>
   addTimer ''t'' panel_model =
     (Some (ValueError ''A timer with name t already exists''), panel_model) \<and>
   ''a_release'' \<in> set (events panel_model) \<and>
   addCustomEvent ''a_release'' panel_model =
     (Some (ValueError ''An event with the name a_release already exists''), panel_model)"
  using registry_names_unique [of "[AddButton ''a'', AddCustomEvent ''a_press'', AddButton ''a'']"
      2 False "''a''" panel_model "''t''" "''a_release''"]
  by (simp add: panel_model_value)

text \<open>
  C9. \<open>stop\<close> on a running engine calls \<open>stateLeft(currentState, "no_event")\<close> once,
  then detaches every attached button (\<open>setHandler(None)\<close>) and every attached timer
  (\<open>setHandler(None)\<close>, then \<open>cancel\<close>), and leaves the engine not running with
  \<open>_curState\<close> at -1. A second \<open>stop\<close> makes the detaching calls again and no handler
  call.
\<close>

theorem stop_then_stop_again:
  "running m \<Longrightarrow>
     stop m =
       (None, m\<lparr>running := False, curState := - 1,
          trace := trace m @ [(StateLeft (curState m) ''no_event'', curState m)] @
            map (\<lambda>b. (ButtonSetHandler b False, curState m)) (buttons m) @
            concat (map (\<lambda>t. [(TimerSetHandler t False, curState m), (TimerCancel t, curState m)])
              (timers m))\<rparr>) \<and>
     stop (snd (stop m)) =
       (None, (snd (stop m))\<lparr>trace := trace (snd (stop m)) @
            map (\<lambda>b. (ButtonSetHandler b False, - 1)) (buttons m) @
            concat (map (\<lambda>t. [(TimerSetHandler t False, - 1), (TimerCancel t, - 1)])
              (timers m))\<rparr>)"
  by (simp add: stop_eq)

theorem stop_then_stop_again_witness:
  "running (snd (start panel_model)) \<and>
   stop (snd (start panel_model)) =
     (None, panel_model
       \<lparr>trace := [(ButtonSetHandler ''a'' True, - 1), (TimerSetHandler ''t'' True, - 1),
                   (StateEntered 0 ''no_event'', 0), (StateLeft 0 ''no_event'', 0),
                   (ButtonSetHandler ''a'' False, 0), (TimerSetHandler ''t'' False, 0),
                   (TimerCancel ''t'', 0)]\<rparr>) \<and>
   stop (snd (stop (snd (start panel_model)))) =
     (None, panel_model
       \<lparr>trace := [(ButtonSetHandler ''a'' True, - 1), (TimerSetHandler ''t'' True, - 1),
                   (StateEntered 0 ''no_event'', 0), (StateLeft 0 ''no_event'', 0),
                   (ButtonSetHandler ''a'' False, 0), (TimerSetHandler ''t'' False, 0),
                   (TimerCancel ''t'', 0),
                   (ButtonSetHandler ''a'' False, - 1), (TimerSetHandler ''t'' False, - 1),
                   (TimerCancel ''t'', - 1)]\<rparr>)"
proof -
  have r: "running (snd (start panel_model))"
    by (simp add: panel_started_value)
  have first: "stop (snd (start panel_model)) =
     (None, panel_model
       \<lparr>trace := [(ButtonSetHandler ''a'' True, - 1), (TimerSetHandler ''t'' True, - 1),
                   (StateEntered 0 ''no_event'', 0), (StateLeft 0 ''no_event'', 0),
                   (ButtonSetHandler ''a'' False, 0), (TimerSetHandler ''t'' False, 0),
                   (TimerCancel ''t'', 0)]\<rparr>)"
    using stop_then_stop_again [OF r, THEN conjunct1]
    unfolding panel_started_value
    by (simp add: panel_model_value)
  have again: "stop (snd (stop (snd (start panel_model)))) =
     (None, panel_model
       \<lparr>trace := [(ButtonSetHandler ''a'' True, - 1), (TimerSetHandler ''t'' True, - 1),
                   (StateEntered 0 ''no_event'', 0), (StateLeft 0 ''no_event'', 0),
                   (ButtonSetHandler ''a'' False, 0), (TimerSetHandler ''t'' False, 0),
                   (TimerCancel ''t'', 0),
                   (ButtonSetHandler ''a'' False, - 1), (TimerSetHandler ''t'' False, - 1),
                   (TimerCancel ''t'', - 1)]\<rparr>)"
    using stop_then_stop_again [OF r, THEN conjunct2]
    unfolding first
    unfolding panel_started_value
    by (simp add: panel_model_value)
  from r first again show ?thesis by blast
qed

text \<open>
  C10, as amended. \<open>processEvent\<close> with a registered event on a stopped engine
  (\<open>_curState\<close> at -1) is not rejected. The lookup subscripts the table at -1, which is
  the row of the last state \<open>numstates - 1\<close> when the table has one row per state. When
  that row holds a pair for the event and the target of the first such pair is a state,
  that is, lies in \<open>[0, numstates)\<close>, the engine calls \<open>stateLeft(-1, event)\<close>, sets
  \<open>_curState\<close> to that target and calls \<open>stateEntered\<close> on it: the lookup and the
  transition are those of an engine in the last state, \<open>stateLeft\<close> receiving -1 in place
  of that state.
\<close>

theorem processEvent_while_stopped:
  assumes "event \<in> set (events m)" and "curState m = - 1"
    and "int (length (transitions m)) = numstates m" and "0 < numstates m"
    and "transitions m ! nat (numstates m - 1) = Some a"
    and "map_of (heap m ! a) event = Some target" and "0 \<le> target" and "target < numstates m"
  shows "getTransition m (curState m) event = getTransition m (numstates m - 1) event \<and>
     processEvent event m =
       (None, m\<lparr>curState := target,
                 trace := trace m @ [(StateLeft (- 1) event, - 1),
                                     (StateEntered target event, target)]\<rparr>) \<and>
     processEvent event (m\<lparr>curState := numstates m - 1\<rparr>) =
       (None, m\<lparr>curState := target,
                 trace := trace m @ [(StateLeft (numstates m - 1) event, numstates m - 1),
                                     (StateEntered target event, target)]\<rparr>)"
proof -
  have last: "getitem (transitions m) (- 1) = Inr (Some a)"
    using assms(3,4,5) by (simp add: getitem_def valid_index_def norm_index_def)
  have same: "getitem (transitions m) (numstates m - 1) = Inr (Some a)"
    using assms(3,4,5) by (simp add: getitem_def valid_index_def norm_index_def)
  show ?thesis
    using assms(1,2,6,7,8) last same
    by (simp add: processEvent_def getTransition_def first_match_map_of gotoState_def call_out_def)
qed

theorem processEvent_while_stopped_witness:
  "''temp_drop'' \<in> set (events (fan_model True)) \<and> curState (fan_model True) = - 1 \<and>
   int (length (transitions (fan_model True))) = numstates (fan_model True) \<and>
   0 < numstates (fan_model True) \<and>
   transitions (fan_model True) ! nat (numstates (fan_model True) - 1) = Some 3 \<and>
   map_of (heap (fan_model True) ! 3) ''temp_drop'' = Some 2 \<and>
   processEvent ''temp_drop'' (fan_model True) =
     (None, (fan_model True)\<lparr>curState := 2,
        trace := [(StateLeft (- 1) ''temp_drop'', - 1), (StateEntered 2 ''temp_drop'', 2)]\<rparr>)"
  using processEvent_while_stopped [of "''temp_drop''" "fan_model True" 3 2]
  by (simp add: fan_model_value)

text \<open>
  C10 as stated fails. On a stopped two-state engine whose last row holds the pair
  \<open>("x", 5)\<close>, \<open>processEvent("x")\<close> finds the pair and then does nothing: no handler
  call, \<open>_curState\<close> still -1, since 5 fails the test of \<open>gotoState\<close>. And after a
  \<open>setTransitionTable\<close> that raised once it had reset the state count to 1, the
  two-row table is subscripted at -1 in its second row, where \<open>x\<close> leads to state 0,
  while the row of the last state \<open>numstates - 1 = 0\<close> has no pair for \<open>x\<close>.
\<close>

theorem processEvent_stopped_stray_target:
  "''x'' \<in> set (events stray_model) \<and> curState stray_model = - 1 \<and>
   getitem (transitions stray_model) (- 1) = Inr (Some 0) \<and>
   heap stray_model ! 0 = [(''x'', 5)] \<and>
   processEvent ''x'' stray_model = (None, stray_model) \<and>
   trace stray_model = [] \<and>
   curState unsized_model = - 1 \<and> numstates unsized_model - 1 = 0 \<and>
   getTransition unsized_model (- 1) ''x'' = Inr 0 \<and>
   getTransition unsized_model 0 ''x'' = Inr (- 1)"
  by (simp add: stray_model_value unsized_model_value processEvent_def getTransition_def
      gotoState_def py_simps)

end
